theory Spec2Isabelle
  imports Main "HOL-Library.Sublist" "HOL-Library.Monad_Syntax"
begin

section \<open>Python strings\<close>

text \<open>
  A Python \<^verbatim>\<open>str\<close> is a sequence of Unicode code points. A character is modelled by its
  code point (an integer), a string by the list of its code points. ASCII literals
  of the source are written \<open>asc ''...''\<close>; the non-ASCII characters of the source are named
  by their code points below.
\<close>

type_synonym uchar = int
type_synonym ustring = "uchar list"

definition ch :: "char \<Rightarrow> uchar" where
  "ch c = of_char c"

definition asc :: "string \<Rightarrow> ustring" where
  "asc s = map ch s"

abbreviation INTEGRAL :: uchar where "INTEGRAL \<equiv> 8747"
abbreviation PARTIAL :: uchar where "PARTIAL \<equiv> 8706"
abbreviation SUP2 :: uchar where "SUP2 \<equiv> 178"
abbreviation INFTY :: uchar where "INFTY \<equiv> 8734"

definition in_ranges :: "uchar \<Rightarrow> (int \<times> int) list \<Rightarrow> bool" where
  "in_ranges c rs = list_ex (\<lambda>(lo, hi). lo \<le> c \<and> c \<le> hi) rs"

text \<open>The code points for which \<^verbatim>\<open>str.isspace\<close> holds; \<^verbatim>\<open>str.strip()\<close> and the regex class
  \<^verbatim>\<open>\s\<close> (on \<^verbatim>\<open>str\<close> patterns) both use this set.\<close>

definition unicode_whitespace :: "(int \<times> int) list" where
  "unicode_whitespace =
     [(9, 13), (28, 32), (133, 133), (160, 160), (5760, 5760), (8192, 8202),
      (8232, 8233), (8239, 8239), (8287, 8287), (12288, 12288)]"

text \<open>The decimal digits (general category Nd, Unicode 14): the regex class \<^verbatim>\<open>\d\<close>.\<close>

definition unicode_decimal :: "(int \<times> int) list" where
  "unicode_decimal =
     [(48, 57), (1632, 1641), (1776, 1785), (1984, 1993), (2406, 2415), (2534, 2543),
      (2662, 2671), (2790, 2799), (2918, 2927), (3046, 3055), (3174, 3183), (3302, 3311),
      (3430, 3439), (3558, 3567), (3664, 3673), (3792, 3801), (3872, 3881), (4160, 4169),
      (4240, 4249), (6112, 6121), (6160, 6169), (6470, 6479), (6608, 6617), (6784, 6793),
      (6800, 6809), (6992, 7001), (7088, 7097), (7232, 7241), (7248, 7257), (42528, 42537),
      (43216, 43225), (43264, 43273), (43472, 43481), (43504, 43513), (43600, 43609),
      (44016, 44025), (65296, 65305), (66720, 66729), (68912, 68921), (69734, 69743),
      (69872, 69881), (69942, 69951), (70096, 70105), (70384, 70393), (70736, 70745),
      (70864, 70873), (71248, 71257), (71360, 71369), (71472, 71481), (71904, 71913),
      (72016, 72025), (72784, 72793), (73040, 73049), (73120, 73129), (92768, 92777),
      (92864, 92873), (93008, 93017), (120782, 120831), (123200, 123209), (123632, 123641),
      (125264, 125273), (130032, 130041)]"

text \<open>The characters for which \<^verbatim>\<open>str.isdigit\<close> holds (Numeric_Type Digit or Decimal).\<close>

definition unicode_digit :: "(int \<times> int) list" where
  "unicode_digit =
     [(48, 57), (178, 179), (185, 185), (1632, 1641), (1776, 1785), (1984, 1993),
      (2406, 2415), (2534, 2543), (2662, 2671), (2790, 2799), (2918, 2927), (3046, 3055),
      (3174, 3183), (3302, 3311), (3430, 3439), (3558, 3567), (3664, 3673), (3792, 3801),
      (3872, 3881), (4160, 4169), (4240, 4249), (4969, 4977), (6112, 6121), (6160, 6169),
      (6470, 6479), (6608, 6618), (6784, 6793), (6800, 6809), (6992, 7001), (7088, 7097),
      (7232, 7241), (7248, 7257), (8304, 8304), (8308, 8313), (8320, 8329), (9312, 9320),
      (9332, 9340), (9352, 9360), (9450, 9450), (9461, 9469), (9471, 9471), (10102, 10110),
      (10112, 10120), (10122, 10130), (42528, 42537), (43216, 43225), (43264, 43273),
      (43472, 43481), (43504, 43513), (43600, 43609), (44016, 44025), (65296, 65305),
      (66720, 66729), (68160, 68163), (68912, 68921), (69216, 69224), (69714, 69722),
      (69734, 69743), (69872, 69881), (69942, 69951), (70096, 70105), (70384, 70393),
      (70736, 70745), (70864, 70873), (71248, 71257), (71360, 71369), (71472, 71481),
      (71904, 71913), (72016, 72025), (72784, 72793), (73040, 73049), (73120, 73129),
      (92768, 92777), (92864, 92873), (93008, 93017), (120782, 120831), (123200, 123209),
      (123632, 123641), (125264, 125273), (127232, 127242), (130032, 130041)]"

definition isspace :: "uchar \<Rightarrow> bool" where
  "isspace c = in_ranges c unicode_whitespace"

definition isdecimal :: "uchar \<Rightarrow> bool" where
  "isdecimal c = in_ranges c unicode_decimal"

definition isdigit_char :: "uchar \<Rightarrow> bool" where
  "isdigit_char c = in_ranges c unicode_digit"

text \<open>\<^verbatim>\<open>s.isdigit()\<close>: every character is a digit and there is at least one.\<close>

definition isdigit :: "ustring \<Rightarrow> bool" where
  "isdigit s = (s \<noteq> [] \<and> list_all isdigit_char s)"

text \<open>\<^verbatim>\<open>s.strip()\<close>\<close>

definition strip :: "ustring \<Rightarrow> ustring" where
  "strip s = rev (dropWhile isspace (rev (dropWhile isspace s)))"

text \<open>\<^verbatim>\<open>s.split(c)\<close> for a one-character separator: never empty, one part more than
  there are separators.\<close>

fun split_on :: "uchar \<Rightarrow> ustring \<Rightarrow> ustring list" where
  "split_on c [] = [[]]"
| "split_on c (x # xs) =
     (if x = c then [] # split_on c xs
      else (x # hd (split_on c xs)) # tl (split_on c xs))"

text \<open>\<^verbatim>\<open>s.replace(old, new)\<close>: the occurrences of \<open>old\<close> from the left, not overlapping.
  The counter is the number of characters of the current occurrence still to skip.\<close>

primrec replace_go :: "ustring \<Rightarrow> ustring \<Rightarrow> nat \<Rightarrow> ustring \<Rightarrow> ustring" where
  "replace_go old new k [] = []"
| "replace_go old new k (x # xs) =
     (case k of
        Suc j \<Rightarrow> replace_go old new j xs
      | 0 \<Rightarrow> if prefix old (x # xs) then new @ replace_go old new (length old - 1) xs
             else x # replace_go old new 0 xs)"

definition replace :: "ustring \<Rightarrow> ustring \<Rightarrow> ustring \<Rightarrow> ustring" where
  "replace old new s =
     (if old = [] then new @ concat (map (\<lambda>x. x # new) s) else replace_go old new 0 s)"

section \<open>Regular expressions\<close>

text \<open>
  The patterns of the source use literal characters, character classes, the classes
  \<^verbatim>\<open>\s\<close>, \<^verbatim>\<open>\d\<close> and \<^verbatim>\<open>.\<close>, the greedy quantifiers \<^verbatim>\<open>?\<close>, \<^verbatim>\<open>*\<close>, \<^verbatim>\<open>+\<close> on a single class, and
  capture groups around a single quantified class. A pattern is the list of its atoms; an
  atom is a class, its quantifier and whether it is captured.
\<close>

datatype citem = Ch uchar | Rg uchar uchar | Ws | Dec

datatype cset = Pos "citem list" | Neg "citem list" | Dot

datatype quant = One | Opt | Star | Plus

datatype atom = Atom (cls: cset) (quant: quant) (cap: bool)

type_synonym regex = "atom list"

fun item_mem :: "citem \<Rightarrow> uchar \<Rightarrow> bool" where
  "item_mem (Ch a) c = (c = a)"
| "item_mem (Rg a b) c = (a \<le> c \<and> c \<le> b)"
| "item_mem Ws c = isspace c"
| "item_mem Dec c = isdecimal c"

fun cset_mem :: "cset \<Rightarrow> uchar \<Rightarrow> bool" where
  "cset_mem (Pos is) c = list_ex (\<lambda>i. item_mem i c) is"
| "cset_mem (Neg is) c = (\<not> list_ex (\<lambda>i. item_mem i c) is)"
| "cset_mem Dot c = (c \<noteq> 10)"

text \<open>The numbers of characters an atom may take at the head of \<open>s\<close>, in the order the
  backtracking matcher tries them: a greedy quantifier tries the longest run first.\<close>

definition candidates :: "atom \<Rightarrow> ustring \<Rightarrow> nat list" where
  "candidates a s =
     (let n = length (takeWhile (cset_mem (cls a)) s) in
      case quant a of
        One \<Rightarrow> if 1 \<le> n then [1] else []
      | Opt \<Rightarrow> if 1 \<le> n then [1, 0] else [0]
      | Star \<Rightarrow> rev [0..<Suc n]
      | Plus \<Rightarrow> rev [1..<Suc n])"

primrec first_some :: "('a \<Rightarrow> 'b option) \<Rightarrow> 'a list \<Rightarrow> 'b option" where
  "first_some f [] = None"
| "first_some f (x # xs) = (case f x of Some y \<Rightarrow> Some y | None \<Rightarrow> first_some f xs)"

text \<open>\<open>match_here r s\<close>: the first match of the whole pattern at the head of \<open>s\<close> in
  backtracking order, as the text each atom took and the text left over.\<close>

primrec match_here :: "regex \<Rightarrow> ustring \<Rightarrow> (ustring list \<times> ustring) option" where
  "match_here [] s = Some ([], s)"
| "match_here (a # r) s =
     first_some
       (\<lambda>k. case match_here r (drop k s) of
               None \<Rightarrow> None
             | Some (ps, rest) \<Rightarrow> Some (take k s # ps, rest))
       (candidates a s)"

text \<open>\<^verbatim>\<open>re.search\<close>: the leftmost start at which the pattern matches. The result is the text
  before the match (\<^verbatim>\<open>expr[:match.start()]\<close>), the pieces of the match and the text after it
  (\<^verbatim>\<open>expr[match.end():]\<close>).\<close>

primrec re_search :: "regex \<Rightarrow> ustring \<Rightarrow> (ustring \<times> ustring list \<times> ustring) option" where
  "re_search r [] =
     (case match_here r [] of None \<Rightarrow> None | Some (ps, rest) \<Rightarrow> Some ([], ps, rest))"
| "re_search r (c # cs) =
     (case match_here r (c # cs) of
        Some (ps, rest) \<Rightarrow> Some ([], ps, rest)
      | None \<Rightarrow>
          (case re_search r cs of
             None \<Rightarrow> None
           | Some (pre, ps, rest) \<Rightarrow> Some (c # pre, ps, rest)))"

text \<open>\<^verbatim>\<open>match.group(i)\<close> is \<open>groups r ps ! (i - 1)\<close>: the pieces of the captured atoms, in
  order.\<close>

definition groups :: "regex \<Rightarrow> ustring list \<Rightarrow> ustring list" where
  "groups r ps = map snd (filter (\<lambda>(a, p). cap a) (zip r ps))"

text \<open>\<^verbatim>\<open>re.sub\<close>: the matches from the left, not overlapping, each replaced by the template
  applied to its groups. The counter is the number of characters of the current match still
  to skip.\<close>

primrec sub_go :: "regex \<Rightarrow> (ustring list \<Rightarrow> ustring) \<Rightarrow> nat \<Rightarrow> ustring \<Rightarrow> ustring" where
  "sub_go r f k [] =
     (case k of
        Suc j \<Rightarrow> []
      | 0 \<Rightarrow> (case match_here r [] of None \<Rightarrow> [] | Some (ps, rest) \<Rightarrow> f (groups r ps)))"
| "sub_go r f k (x # xs) =
     (case k of
        Suc j \<Rightarrow> sub_go r f j xs
      | 0 \<Rightarrow>
          (case match_here r (x # xs) of
             None \<Rightarrow> x # sub_go r f 0 xs
           | Some (ps, rest) \<Rightarrow>
               (case length (concat ps) of
                  0 \<Rightarrow> f (groups r ps) @ x # sub_go r f 0 xs
                | Suc n \<Rightarrow> f (groups r ps) @ sub_go r f n xs)))"

definition re_sub :: "regex \<Rightarrow> (ustring list \<Rightarrow> ustring) \<Rightarrow> ustring \<Rightarrow> ustring" where
  "re_sub r f s = sub_go r f 0 s"

text \<open>Shorthands for writing the patterns of the source.\<close>

definition L :: "uchar \<Rightarrow> atom" where
  "L c = Atom (Pos [Ch c]) One False"

definition lit :: "string \<Rightarrow> regex" where
  "lit s = map (\<lambda>c. L (ch c)) s"

abbreviation lower :: cset where "lower \<equiv> Pos [Rg 97 122]"
abbreviation letter :: cset where "letter \<equiv> Pos [Rg 97 122, Rg 65 90]"
abbreviation noparen :: cset where "noparen \<equiv> Neg [Ch 40, Ch 41]"
abbreviation ws :: atom where "ws \<equiv> Atom (Pos [Ws]) Star False"

text \<open>A captured atom, and an optional literal character.\<close>

definition G :: "cset \<Rightarrow> quant \<Rightarrow> atom" where
  "G c q = Atom c q True"

definition opt :: "uchar \<Rightarrow> atom" where
  "opt c = Atom (Pos [Ch c]) Opt False"

section \<open>The preprocessor\<close>

text \<open>The template \<^verbatim>\<open>r'\1*\2'\<close>.\<close>

definition star_between :: "ustring list \<Rightarrow> ustring" where
  "star_between g = g ! 0 @ asc ''*'' @ g ! 1"

text \<open>\<^verbatim>\<open>r'(\d)([a-zA-Z\(])'\<close> and \<^verbatim>\<open>r'(\))([a-zA-Z])'\<close>\<close>

definition digit_then_name :: regex where
  "digit_then_name = [G (Pos [Dec]) One, G (Pos [Rg 97 122, Rg 65 90, Ch 40]) One]"

definition paren_then_name :: regex where
  "paren_then_name = [G (Pos [Ch 41]) One, G letter One]"

definition preprocess_expression :: "ustring \<Rightarrow> ustring" where
  "preprocess_expression expr =
     (let expr = replace (asc ''^'') (asc ''**'') expr;
          expr = re_sub digit_then_name star_between expr;
          expr = re_sub paren_then_name star_between expr
      in expr)"

section \<open>The notation translator: \<^verbatim>\<open>parse_combined_expression\<close>\<close>

subsection \<open>The patterns\<close>

text \<open>\<^verbatim>\<open>r'\<integral>\s*\(\s*d/d([a-z])\s*\(([^()]+)\)\s*\)\s*d([a-z])'\<close>\<close>

definition derivative_in_integral :: regex where
  "derivative_in_integral =
     [L INTEGRAL, ws, L (ch CHR ''(''), ws] @ lit ''d/d'' @
     [G lower One, ws, L (ch CHR ''(''), G noparen Plus, L (ch CHR '')''), ws,
      L (ch CHR '')''), ws, L (ch CHR ''d''), G lower One]"

text \<open>\<^verbatim>\<open>r'd/d([a-z])\s*\(\s*\<integral>\s*([^d]+)\s*d([a-z])\s*\)'\<close>\<close>

definition special_case :: regex where
  "special_case =
     lit ''d/d'' @
     [G lower One, ws, L (ch CHR ''(''), ws, L INTEGRAL, ws, G (Neg [Ch (ch CHR ''d'')]) Plus,
      ws, L (ch CHR ''d''), G lower One, ws, L (ch CHR '')'')]"

text \<open>The common part \<^verbatim>\<open>lim[_{]?([a-z])->([^{}]+)[}]?\<close> of the three limit patterns.\<close>

definition lim_head :: regex where
  "lim_head =
     lit ''lim'' @ [Atom (Pos [Ch (ch CHR ''_''), Ch (ch CHR ''{'')]) Opt False, G lower One] @
     lit ''->'' @ [G (Neg [Ch (ch CHR ''{''), Ch (ch CHR ''}'')]) Plus, opt (ch CHR ''}'')]"

text \<open>\<^verbatim>\<open>r'd/d([a-z])\s*\(\s*lim[_{]?([a-z])->([^{}]+)[}]?\s*\(([^()]+)\)\s*\)'\<close>\<close>

definition limit_derivative :: regex where
  "limit_derivative =
     lit ''d/d'' @ [G lower One, ws, L (ch CHR ''(''), ws] @ lim_head @
     [ws, L (ch CHR ''(''), G noparen Plus, L (ch CHR '')''), ws, L (ch CHR '')'')]"

text \<open>\<^verbatim>\<open>r'\<integral>\s*\(\s*lim[_{]?([a-z])->([^{}]+)[}]?\s*\(([^()]+)\)\s*\)\s*d([a-z])'\<close>\<close>

definition limit_integral :: regex where
  "limit_integral =
     [L INTEGRAL, ws, L (ch CHR ''(''), ws] @ lim_head @
     [ws, L (ch CHR ''(''), G noparen Plus, L (ch CHR '')''), ws, L (ch CHR '')''), ws,
      L (ch CHR ''d''), G lower One]"

text \<open>The common tail \<^verbatim>\<open>\s*\(?([^()]+)\)?\<close> of the derivative and limit patterns.\<close>

definition operand :: regex where
  "operand = [ws, opt (ch CHR ''(''), G noparen Plus, opt (ch CHR '')'')]"

text \<open>\<^verbatim>\<open>r'd\<twosuperior>/d([a-z])\<twosuperior>\s*\(?([^()]+)\)?'\<close>\<close>

definition second_derivative_pattern :: regex where
  "second_derivative_pattern =
     [L (ch CHR ''d''), L SUP2, L (ch CHR ''/''), L (ch CHR ''d''), G lower One, L SUP2] @ operand"

text \<open>\<^verbatim>\<open>r'\<partial>/\<partial>([a-z])\s*\(?([^()]+)\)?'\<close>\<close>

definition partial_derivative_pattern :: regex where
  "partial_derivative_pattern =
     [L PARTIAL, L (ch CHR ''/''), L PARTIAL, G lower One] @ operand"

text \<open>\<^verbatim>\<open>r'\<partial>\<twosuperior>/\<partial>([a-z])\<twosuperior>\s*\(?([^()]+)\)?'\<close>\<close>

definition second_partial_pattern :: regex where
  "second_partial_pattern =
     [L PARTIAL, L SUP2, L (ch CHR ''/''), L PARTIAL, G lower One, L SUP2] @ operand"

text \<open>\<^verbatim>\<open>r'\<partial>\<twosuperior>/\<partial>([a-z])\<partial>([a-z])\s*\(?([^()]+)\)?'\<close>\<close>

definition mixed_partial_pattern :: regex where
  "mixed_partial_pattern =
     [L PARTIAL, L SUP2, L (ch CHR ''/''), L PARTIAL, G lower One, L PARTIAL, G lower One] @
     operand"

text \<open>\<^verbatim>\<open>r'd/d([a-z])\s*\(?([^()]+)\)?'\<close>\<close>

definition derivative_pattern :: regex where
  "derivative_pattern = lit ''d/d'' @ [G lower One] @ operand"

text \<open>\<^verbatim>\<open>r'\<integral>_([^\^]+)\^([^\s]+)\s*\(?([^()d]+)\)?\s*d([a-z])'\<close>\<close>

definition definite_integral_pattern :: regex where
  "definite_integral_pattern =
     [L INTEGRAL, L (ch CHR ''_''), G (Neg [Ch (ch CHR ''^'')]) Plus, L (ch CHR ''^''),
      G (Neg [Ws]) Plus, ws, opt (ch CHR ''(''),
      G (Neg [Ch (ch CHR ''(''), Ch (ch CHR '')''), Ch (ch CHR ''d'')]) Plus,
      opt (ch CHR '')''), ws, L (ch CHR ''d''), G lower One]"

text \<open>\<^verbatim>\<open>r'\<integral>\s*([^d]*)\s*d([a-z])'\<close>\<close>

definition integral_pattern :: regex where
  "integral_pattern =
     [L INTEGRAL, ws, G (Neg [Ch (ch CHR ''d'')]) Star, ws, L (ch CHR ''d''), G lower One]"

text \<open>\<^verbatim>\<open>r'lim[_{]?([a-z])->([^{}]+)[}]?\s*\(?([^()]+)\)?'\<close>\<close>

definition limit_pattern :: regex where
  "limit_pattern = lim_head @ operand"

subsection \<open>The replacement of each rewrite loop\<close>

text \<open>Each function takes the groups of the match (\<open>g ! 0\<close> is \<^verbatim>\<open>match.group(1)\<close>) and
  builds the \<^verbatim>\<open>replacement\<close> string of the loop body.\<close>

definition sin_x_special :: "ustring \<Rightarrow> ustring" where
  "sin_x_special inner_expr =
     (if strip inner_expr = asc ''sin x'' then asc ''sin(x)'' else inner_expr)"

definition second_derivative_replacement :: "ustring list \<Rightarrow> ustring" where
  "second_derivative_replacement g =
     (let var = g ! 0; inner_expr = sin_x_special (g ! 1)
      in asc ''diff('' @ inner_expr @ asc '', '' @ var @ asc '', 2)'')"

definition partial_derivative_replacement :: "ustring list \<Rightarrow> ustring" where
  "partial_derivative_replacement g =
     (let var = g ! 0; inner_expr = sin_x_special (g ! 1)
      in asc ''diff('' @ inner_expr @ asc '', '' @ var @ asc '')'')"

definition second_partial_replacement :: "ustring list \<Rightarrow> ustring" where
  "second_partial_replacement g =
     (let var = g ! 0; inner_expr = g ! 1
      in asc ''diff('' @ inner_expr @ asc '', '' @ var @ asc '', 2)'')"

definition mixed_partial_replacement :: "ustring list \<Rightarrow> ustring" where
  "mixed_partial_replacement g =
     (let var1 = g ! 0; var2 = g ! 1; inner_expr = g ! 2
      in asc ''diff(diff('' @ inner_expr @ asc '', '' @ var1 @ asc ''), '' @ var2 @ asc '')'')"

definition derivative_replacement :: "ustring list \<Rightarrow> ustring" where
  "derivative_replacement g =
     (let var = g ! 0; inner_expr = sin_x_special (g ! 1)
      in asc ''diff('' @ inner_expr @ asc '', '' @ var @ asc '')'')"

definition definite_integral_replacement :: "ustring list \<Rightarrow> ustring" where
  "definite_integral_replacement g =
     (let lower = g ! 0; upper = g ! 1; inner_expr = g ! 2; var = g ! 3
      in asc ''integrate('' @ inner_expr @ asc '', ('' @ var @ asc '', '' @ lower @ asc '', '' @
         upper @ asc ''))'')"

definition integral_replacement :: "ustring list \<Rightarrow> ustring" where
  "integral_replacement g =
     (let inner_expr = strip (g ! 0); var = g ! 1;
          inner_expr =
            (if isdigit inner_expr \<and> var = asc ''x'' then inner_expr @ asc ''*x''
             else if 2 \<le> length inner_expr \<and> isdigit_char (inner_expr ! 0) \<and>
                     [inner_expr ! 1] = var
                  then [inner_expr ! 0] @ asc ''*'' @ drop 1 inner_expr
             else inner_expr);
          inner_expr =
            (if suffix (asc '')'') inner_expr \<and>
                count_list inner_expr (ch CHR ''('') < count_list inner_expr (ch CHR '')'')
             then strip (butlast inner_expr) else inner_expr)
      in asc ''integrate('' @ inner_expr @ asc '', '' @ var @ asc '')'')"

definition limit_replacement :: "ustring list \<Rightarrow> ustring" where
  "limit_replacement g =
     (let var = g ! 0; approach = g ! 1; inner_expr = g ! 2;
          approach =
            (if approach \<in> set [asc ''inf'', asc ''infinity'', [INFTY]] then asc ''oo''
             else if approach \<in> set [asc ''-inf'', asc ''-infinity'', asc ''-'' @ [INFTY]]
                  then asc ''-oo''
             else approach)
      in asc ''limit('' @ inner_expr @ asc '', '' @ var @ asc '', '' @ approach @ asc '')'')"

subsection \<open>The rewrite loops\<close>

text \<open>
  One loop of the source,
  \<^verbatim>\<open>while re.search(pattern, expr): match = re.search(pattern, expr); ...;
  expr = expr[:match.start()] + replacement + expr[match.end():]\<close>.
  Nothing in the source bounds the number of iterations, so the loop is a partial function:
  \<open>None\<close> stands for a loop that never ends.
\<close>

partial_function (option) rewrite_loop ::
  "regex \<Rightarrow> (ustring list \<Rightarrow> ustring) \<Rightarrow> ustring \<Rightarrow> ustring option" where
  "rewrite_loop pat repl expr =
     (case re_search pat expr of
        None \<Rightarrow> Some expr
      | Some (pre, ps, post) \<Rightarrow> rewrite_loop pat repl (pre @ repl (groups pat ps) @ post))"

declare rewrite_loop.simps [code]


text \<open>The eight loops of lines 143 to 261, in the order of the source.\<close>

definition rewrite_rules :: "(regex \<times> (ustring list \<Rightarrow> ustring)) list" where
  "rewrite_rules =
     [(second_derivative_pattern, second_derivative_replacement),
      (partial_derivative_pattern, partial_derivative_replacement),
      (second_partial_pattern, second_partial_replacement),
      (mixed_partial_pattern, mixed_partial_replacement),
      (derivative_pattern, derivative_replacement),
      (definite_integral_pattern, definite_integral_replacement),
      (integral_pattern, integral_replacement),
      (limit_pattern, limit_replacement)]"

primrec run_loops ::
  "(regex \<times> (ustring list \<Rightarrow> ustring)) list \<Rightarrow> ustring \<Rightarrow> ustring option" where
  "run_loops [] expr = Some expr"
| "run_loops (rule # rules) expr =
     (case rewrite_loop (fst rule) (snd rule) expr of
        None \<Rightarrow> None
      | Some expr' \<Rightarrow> run_loops rules expr')"

subsection \<open>The function\<close>

text \<open>\<^verbatim>\<open>match.group(i)\<close> of a successful \<^verbatim>\<open>re.search\<close>, or \<open>None\<close> when there is no
  match.\<close>

definition search_groups :: "regex \<Rightarrow> ustring \<Rightarrow> ustring list option" where
  "search_groups r s =
     (case re_search r s of None \<Rightarrow> None | Some (pre, ps, post) \<Rightarrow> Some (groups r ps))"

text \<open>Lines 92 to 263: preprocessing, the three nested forms recognised after it, and the
  rewrite loops.\<close>

definition parse_preprocessed :: "ustring \<Rightarrow> ustring option" where
  "parse_preprocessed expr0 =
     (let expr = preprocess_expression expr0 in
      case search_groups special_case expr of
        Some g \<Rightarrow>
          (let x_var = g ! 0; integrand = strip (g ! 1); t_var = g ! 2 in
           if t_var \<noteq> x_var then Some (replace t_var x_var integrand)
           else Some (asc ''diff(integrate('' @ integrand @ asc '', '' @ t_var @ asc ''), '' @
                      x_var @ asc '')''))
      | None \<Rightarrow>
     (case search_groups limit_derivative expr of
        Some g \<Rightarrow>
          (let x_var = g ! 0; t_var = g ! 1; approach = g ! 2; inner_expr = g ! 3 in
           if t_var \<noteq> x_var \<and> \<not> sublist x_var inner_expr then Some (asc ''0'')
           else Some (asc ''diff(limit('' @ inner_expr @ asc '', '' @ t_var @ asc '', '' @
                      approach @ asc ''), '' @ x_var @ asc '')''))
      | None \<Rightarrow>
     (case search_groups limit_integral expr of
        Some g \<Rightarrow>
          (let t_var = g ! 0; approach = g ! 1; inner_expr = g ! 2; x_var = g ! 3 in
           if approach = x_var
           then Some (asc ''integrate('' @ replace t_var x_var inner_expr @ asc '', '' @
                      x_var @ asc '')'')
           else Some (asc ''integrate(limit('' @ inner_expr @ asc '', '' @ t_var @ asc '', '' @
                      approach @ asc ''), '' @ x_var @ asc '')''))
      | None \<Rightarrow> run_loops rewrite_rules expr)))"

text \<open>The literal strings of lines 31 to 65.\<close>

definition d_dx_sin_forms :: "ustring list" where
  "d_dx_sin_forms =
     [asc ''d/dx sin(x)'', asc ''d/dx(sin(x))'', asc ''d/dx sin x'', asc ''d/dx(sin x)'']"

definition d2_dx2_sin_forms :: "ustring list" where
  "d2_dx2_sin_forms =
     map (\<lambda>t. asc ''d'' @ [SUP2] @ asc ''/dx'' @ [SUP2] @ asc t)
       [''(sin(x))'', ''(sin x)'', '' sin(x)'', '' sin x'']"

definition partial_x_sin_forms :: "ustring list" where
  "partial_x_sin_forms =
     map (\<lambda>t. [PARTIAL] @ asc ''/'' @ [PARTIAL] @ asc t)
       [''x(sin(x))'', ''x sin(x)'', ''x(sin x)'', ''x sin x'']"

definition example2 :: ustring where "example2 = [INTEGRAL] @ asc ''(d/dx(x^2)) dx''"
definition example2' :: ustring where "example2' = [INTEGRAL] @ asc ''(d/dx(x**2)) dx''"
definition example3 :: ustring where "example3 = asc ''lim_{x->0}(sin(x)/x)''"
definition example3' :: ustring where "example3' = asc ''lim x->0 sin(x)/x''"
definition example4 :: ustring where "example4 = asc ''d/dx(lim_{t->0}(sin(t)/t))''"
definition example5 :: ustring where "example5 = [INTEGRAL] @ asc ''(lim_{t->x}(t^2)) dx''"

text \<open>Lines 25 to 90, then the rest of the function. The result is \<open>None\<close> only when a
  rewrite loop does not end.\<close>

definition parse_combined_expression :: "ustring \<Rightarrow> ustring option" where
  "parse_combined_expression expr =
     (if strip expr \<in> set d_dx_sin_forms then Some (asc ''cos(x)'')
      else if strip expr \<in> set d2_dx2_sin_forms then Some (asc ''-sin(x)'')
      else if strip expr \<in> set partial_x_sin_forms then Some (asc ''cos(x)'')
      else if sublist example2 expr \<or> sublist example2' expr then Some (asc ''x^2'')
      else if sublist example3 expr \<or> sublist example3' expr then Some (asc ''1'')
      else if sublist example4 expr then Some (asc ''0'')
      else if sublist example5 expr then Some (asc ''x^3/3'')
      else if prefix [INTEGRAL] (strip expr) \<and> ch CHR ''d'' \<in> set expr \<and>
              \<not> prefix (asc ''d/d'') expr
      then
        (case search_groups derivative_in_integral expr of
           Some g \<Rightarrow>
             (let diff_var = g ! 0; inner_expr = g ! 1; int_var = g ! 2 in
              if diff_var = int_var then Some inner_expr
              else Some (asc ''integrate(diff('' @ inner_expr @ asc '', '' @ diff_var @
                         asc ''), '' @ int_var @ asc '')''))
         | None \<Rightarrow>
             (let parts = split_on (ch CHR ''d'') (strip expr) in
              if 2 \<le> length parts
              then
                (let integrand = strip (tl (hd parts)); var = strip (last parts)
                 in Some (asc ''integrate('' @ integrand @ asc '', '' @ var @ asc '')''))
              else parse_preprocessed expr))
      else parse_preprocessed expr)"

section \<open>The evaluator: \<^verbatim>\<open>evaluate_combined_expression\<close>\<close>

text \<open>
  The symbolic engine (SymPy) is outside the repository: the evaluator is modelled over an
  arbitrary engine. An engine call that raises returns \<open>Inl\<close> of the exception's message
  (\<^verbatim>\<open>str(e)\<close>, all the evaluator ever reads of an exception). \<open>to_str\<close> is the formatting of
  an expression inside an f-string; \<open>sin_x\<close>, \<open>cos_x\<close> and \<open>neg_sin_x\<close> are \<^verbatim>\<open>sp.sin(x)\<close>,
  \<^verbatim>\<open>sp.cos(x)\<close> and \<^verbatim>\<open>-sp.sin(x)\<close>.
\<close>

record 'e engine =
  sympify :: "ustring \<Rightarrow> ustring + 'e"
  Symbol :: "ustring \<Rightarrow> ustring + 'e"
  integrate :: "'e \<Rightarrow> 'e \<Rightarrow> ustring + 'e"
  simplify :: "'e \<Rightarrow> ustring + 'e"
  to_str :: "'e \<Rightarrow> ustring"
  sin_x :: 'e
  cos_x :: 'e
  neg_sin_x :: 'e

text \<open>What a call returns: the dictionary \<^verbatim>\<open>{"result", "parsed", "steps"}\<close>, the dictionary
  \<^verbatim>\<open>{"error", "parsed"}\<close> (\<open>parsed\<close> is \<open>None\<close> for Python's \<^verbatim>\<open>None\<close>), or \<^verbatim>\<open>None\<close> when the
  function body ends without a \<^verbatim>\<open>return\<close>.\<close>

datatype 'e result =
    Result 'e ustring "ustring list"
  | Error ustring "ustring option"
  | ReturnsNone

text \<open>The messages written to the Streamlit page: \<^verbatim>\<open>st.info\<close>, \<^verbatim>\<open>st.success\<close>,
  \<^verbatim>\<open>st.warning\<close>, \<^verbatim>\<open>st.error\<close>.\<close>

datatype ui_message = Info ustring | Success ustring | Warning ustring | ErrorMsg ustring

definition and_then :: "'x + 'a \<Rightarrow> ('a \<Rightarrow> 'x + 'b) \<Rightarrow> 'x + 'b" where
  "and_then r f = (case r of Inl e \<Rightarrow> Inl e | Inr v \<Rightarrow> f v)"

definition original :: "ustring \<Rightarrow> ustring" where
  "original expr_text = asc ''Original expression: '' @ expr_text"

text \<open>Lines 271 to 370: the literal examples. \<open>None\<close> when none of them applies; an
  exception of \<^verbatim>\<open>sp.sympify\<close> reaches the outer handler before \<^verbatim>\<open>parsed_expr\<close> is bound.\<close>

definition literal_examples :: "'e engine \<Rightarrow> ustring \<Rightarrow> 'e result option" where
  "literal_examples eng expr_text =
     (if strip expr_text \<in> set d_dx_sin_forms
      then Some (Result (cos_x eng) (asc ''cos(x)'')
        [original expr_text,
         asc ''Taking the derivative of sin(x) with respect to x'',
         asc ''The derivative of sin(x) is cos(x)'',
         asc ''Therefore: d/dx sin(x) = cos(x)''])
      else if strip expr_text \<in> set d2_dx2_sin_forms
      then Some (Result (neg_sin_x eng) (asc ''-sin(x)'')
        [original expr_text,
         asc ''Taking the second derivative of sin(x) with respect to x'',
         asc ''The first derivative of sin(x) is cos(x)'',
         asc ''The second derivative of sin(x) is -sin(x)'',
         asc ''Therefore: d'' @ [SUP2] @ asc ''/dx'' @ [SUP2] @ asc '' sin(x) = -sin(x)''])
      else if strip expr_text \<in> set partial_x_sin_forms
      then Some (Result (cos_x eng) (asc ''cos(x)'')
        [original expr_text,
         asc ''Taking the partial derivative of sin(x) with respect to x'',
         asc ''The partial derivative of sin(x) with respect to x is cos(x)'',
         asc ''Therefore: '' @ [PARTIAL] @ asc ''/'' @ [PARTIAL] @ asc ''x sin(x) = cos(x)''])
      else if sublist example2 expr_text \<or> sublist example2' expr_text
      then Some (case sympify eng (asc ''x**2'') of
          Inl e \<Rightarrow> Error e None
        | Inr v \<Rightarrow> Result v (asc ''x^2'')
            [original expr_text,
             asc ''This is the integral of a derivative'',
             asc ''By the Fundamental Theorem of Calculus: '' @ [INTEGRAL] @
               asc ''(d/dx(f(x))) dx = f(x) + C'',
             asc ''Therefore: '' @ [INTEGRAL] @ asc ''(d/dx(x^2)) dx = x^2 + C''])
      else if sublist example3 expr_text \<or> sublist example3' expr_text
      then Some (case sympify eng (asc ''1'') of
          Inl e \<Rightarrow> Error e None
        | Inr v \<Rightarrow> Result v (asc ''1'')
            [original expr_text,
             asc ''This is a well-known limit in calculus'',
             asc ''Using L'' @ [39] @ asc ''H'' @ [244] @ asc ''pital'' @ [39] @
               asc ''s rule or Taylor series expansion'',
             asc ''The limit of sin(x)/x as x approaches 0 is 1''])
      else if sublist example4 expr_text
      then Some (case sympify eng (asc ''0'') of
          Inl e \<Rightarrow> Error e None
        | Inr v \<Rightarrow> Result v (asc ''0'')
            [original expr_text,
             asc ''The limit lim_{t->0}(sin(t)/t) = 1 is a constant'',
             asc ''The derivative of a constant is 0'',
             asc ''Therefore: d/dx(lim_{t->0}(sin(t)/t)) = 0''])
      else if sublist example5 expr_text
      then Some (case sympify eng (asc ''x**3/3'') of
          Inl e \<Rightarrow> Error e None
        | Inr v \<Rightarrow> Result v (asc ''x^3/3'')
            [original expr_text,
             asc ''When t approaches x, lim_{t->x}(t^2) = x^2'',
             asc ''So we'' @ [39] @ asc ''re integrating x^2 with respect to x'',
             asc ''The integral of x^2 dx = x^3/3 + C''])
      else None)"

text \<open>The steps of a direct integration (lines 414 to 423 and 502 to 511).\<close>

definition integration_result :: "'e engine \<Rightarrow> ustring \<Rightarrow> ustring \<Rightarrow> ustring \<Rightarrow> ustring \<Rightarrow> 'e \<Rightarrow> 'e result" where
  "integration_result eng expr_text parsed_expr integrand var simplified =
     Result simplified parsed_expr
       [original expr_text,
        asc ''Integrand: '' @ integrand,
        asc ''Variable of integration: '' @ var,
        asc ''Result: '' @ to_str eng simplified @ asc '' + C'']"

text \<open>Lines 392 to 426: an input that starts with the integral sign is split at the letter
  d and integrated directly. The first component is the value returned, if the block
  returns; the second is what it writes to the page.\<close>

definition simple_integral ::
  "'e engine \<Rightarrow> ustring \<Rightarrow> ustring \<Rightarrow> 'e result option \<times> ui_message list" where
  "simple_integral eng expr_text parsed_expr =
     (if prefix [INTEGRAL] (strip expr_text) \<and> ch CHR ''d'' \<in> set expr_text \<and>
         \<not> prefix (asc ''d/d'') expr_text
      then
        (let parts = split_on (ch CHR ''d'') (strip expr_text) in
         if 2 \<le> length parts
         then
           (let integrand = strip (tl (hd parts)); var = strip (last parts) in
            case and_then (Symbol eng var) (\<lambda>var_symbol.
                 and_then (sympify eng integrand) (\<lambda>integrand_expr.
                 and_then (integrate eng integrand_expr var_symbol) (\<lambda>result.
                 simplify eng result))) of
              Inr simplified \<Rightarrow>
                (Some (integration_result eng expr_text parsed_expr integrand var simplified), [])
            | Inl integral_error \<Rightarrow>
                (None, [Warning (asc ''Special case handling failed: '' @ integral_error)]))
         else (None, []))
      else (None, []))"

text \<open>\<^verbatim>\<open>r'integrate\((.+),\s*([a-z])\)'\<close> and \<^verbatim>\<open>r'(\d)([a-zA-Z])'\<close>\<close>

definition integrate_call :: regex where
  "integrate_call =
     lit ''integrate('' @ [G Dot Plus, L (ch CHR '',''), ws, G lower One, L (ch CHR '')'')]"

definition digit_then_letter :: regex where
  "digit_then_letter = [G (Pos [Dec]) One, G letter One]"

text \<open>Lines 429 to 462: the body of the inner \<^verbatim>\<open>try\<close>. \<open>Inl\<close> is the exception \<^verbatim>\<open>inner_e\<close>.\<close>

definition evaluation_attempt :: "'e engine \<Rightarrow> ustring \<Rightarrow> ustring \<Rightarrow> ustring + 'e result" where
  "evaluation_attempt eng expr_text parsed_expr =
     (if parsed_expr \<in> set [asc ''x^2'', asc ''1'', asc ''0'', asc ''x^3/3'']
      then
        and_then
          (if parsed_expr = asc ''x^2'' then sympify eng (asc ''x**2'')
           else if parsed_expr = asc ''x^3/3'' then sympify eng (asc ''x**3/3'')
           else sympify eng parsed_expr)
          (\<lambda>result. Inr (Result result parsed_expr
             [original expr_text, asc ''Evaluated result: '' @ to_str eng result]))
      else
        and_then (sympify eng parsed_expr) (\<lambda>result.
        and_then (simplify eng result) (\<lambda>simplified.
          Inr (Result simplified parsed_expr
             [original expr_text,
              asc ''Parsed as: '' @ parsed_expr,
              asc ''Evaluated result: '' @ to_str eng simplified]))))"

text \<open>Lines 486 to 494: the integrand of the direct integration, with explicit products.\<close>

definition explicit_products :: "ustring \<Rightarrow> ustring \<Rightarrow> ustring" where
  "explicit_products integrand var =
     (let integrand =
            (if isdigit integrand \<and> var = asc ''x'' then integrand @ asc ''*x''
             else if 2 \<le> length integrand \<and> isdigit_char (integrand ! 0) \<and>
                     [integrand ! 1] = var
                  then [integrand ! 0] @ asc ''*'' @ drop 1 integrand
             else integrand)
      in re_sub digit_then_letter star_between integrand)"

text \<open>Lines 475 to 513: the branch for a parsed string that starts with \<^verbatim>\<open>integrate(\<close>. After
  a failed direct integration (line 513), and when the pattern of line 479 does not match,
  the function body ends without a \<^verbatim>\<open>return\<close>.\<close>

definition direct_integration ::
  "'e engine \<Rightarrow> ustring \<Rightarrow> ustring \<Rightarrow> 'e result \<times> ui_message list" where
  "direct_integration eng expr_text parsed_expr =
     (let attempting = Warning (asc ''Attempting direct integration...'') in
      case search_groups integrate_call parsed_expr of
        None \<Rightarrow> (ReturnsNone, [attempting])
      | Some g \<Rightarrow>
          (let integrand = g ! 0; var = g ! 1 in
           case Symbol eng var of
             Inl direct_integral_error \<Rightarrow>
               (ReturnsNone,
                [attempting,
                 ErrorMsg (asc ''Direct integration failed: '' @ direct_integral_error)])
           | Inr var_symbol \<Rightarrow>
               (let integrand = explicit_products integrand var in
                case and_then (sympify eng integrand) (\<lambda>integrand_expr.
                     and_then (integrate eng integrand_expr var_symbol) (\<lambda>result.
                     simplify eng result)) of
                  Inr simplified \<Rightarrow>
                    (integration_result eng expr_text parsed_expr integrand var simplified,
                     [attempting])
                | Inl direct_integral_error \<Rightarrow>
                    (ReturnsNone,
                     [attempting,
                      ErrorMsg (asc ''Direct integration failed: '' @
                                direct_integral_error)]))))"

text \<open>Lines 428 to 515: the evaluation of the parsed string and its fallbacks.\<close>

definition evaluate_parsed ::
  "'e engine \<Rightarrow> ustring \<Rightarrow> ustring \<Rightarrow> 'e result \<times> ui_message list" where
  "evaluate_parsed eng expr_text parsed_expr =
     (case evaluation_attempt eng expr_text parsed_expr of
        Inr r \<Rightarrow> (r, [])
      | Inl inner_e \<Rightarrow>
          if parsed_expr = asc ''sin(x)''
          then (Result (sin_x eng) parsed_expr
                  [original expr_text,
                   asc ''Applied Fundamental Theorem of Calculus'',
                   asc ''Result: sin(x)''], [])
          else if prefix (asc ''integrate('') parsed_expr
          then direct_integration eng expr_text parsed_expr
          else (Error inner_e (Some parsed_expr), []))"

text \<open>The whole function: the value returned and the messages written to the page, in
  order. \<open>None\<close> only when a rewrite loop of \<open>parse_combined_expression\<close> does not end.\<close>

definition evaluate_combined_expression ::
  "'e engine \<Rightarrow> ustring \<Rightarrow> ('e result \<times> ui_message list) option" where
  "evaluate_combined_expression eng expr_text =
     (case literal_examples eng expr_text of
        Some r \<Rightarrow> Some (r, [])
      | None \<Rightarrow>
     (case parse_combined_expression expr_text of
        None \<Rightarrow> None
      | Some parsed_expr \<Rightarrow>
          (let shown = Info (asc ''Parsed expression: '' @ [96] @ parsed_expr @ [96]) in
           if strip expr_text = asc ''d/dx('' @ [INTEGRAL] @ asc ''sin(t) dt)''
           then Some (Result (sin_x eng) parsed_expr
                        [original expr_text,
                         asc ''This is the derivative of an indefinite integral'',
                         asc ''By the Fundamental Theorem of Calculus: d/dx('' @ [INTEGRAL] @
                           asc ''f(t) dt) = f(x)'',
                         asc ''Therefore: d/dx('' @ [INTEGRAL] @ asc ''sin(t) dt) = sin(x)''],
                      [shown,
                       Success (asc ''Special case detected: d/dx('' @ [INTEGRAL] @
                                asc ''sin(t) dt) = sin(x)'')])
           else
             (case simple_integral eng expr_text parsed_expr of
                (Some r, msgs) \<Rightarrow> Some (r, shown # msgs)
              | (None, msgs) \<Rightarrow>
                  (case evaluate_parsed eng expr_text parsed_expr of
                     (r, msgs') \<Rightarrow> Some (r, shown # msgs @ msgs'))))))"

text \<open>Two engines used to run the evaluator on concrete inputs: one whose expressions are
  their own source text and whose calls all succeed, and one whose parser rejects every
  text.\<close>

definition text_engine :: "ustring engine" where
  "text_engine =
     \<lparr>sympify = (\<lambda>s. Inr s), Symbol = (\<lambda>s. Inr s),
      integrate = (\<lambda>e v. Inr (asc ''Integral('' @ e @ asc '', '' @ v @ asc '')'')),
      simplify = (\<lambda>e. Inr e), to_str = (\<lambda>e. e),
      sin_x = asc ''sin(x)'', cos_x = asc ''cos(x)'', neg_sin_x = asc ''-sin(x)''\<rparr>"

definition rejecting_engine :: "ustring engine" where
  "rejecting_engine = text_engine\<lparr>sympify := (\<lambda>s. Inl (asc ''SympifyError''))\<rparr>"

section \<open>Auxiliary notions of the proofs\<close>




text \<open>A star between every adjacent pair that satisfies \<open>P\<close>, scanning from the left and
  resuming after the pair; and whether a string has such a pair.\<close>

fun insert_star :: "(uchar \<Rightarrow> uchar \<Rightarrow> bool) \<Rightarrow> ustring \<Rightarrow> ustring" where
  "insert_star P (a # b # s) =
     (if P a b then a # 42 # b # insert_star P s else a # insert_star P (b # s))"
| "insert_star P s = s"

fun has_pair :: "(uchar \<Rightarrow> uchar \<Rightarrow> bool) \<Rightarrow> ustring \<Rightarrow> bool" where
  "has_pair P (a # b # s) = (P a b \<or> has_pair P (b # s))"
| "has_pair P s = False"

definition digit_name_pair :: "uchar \<Rightarrow> uchar \<Rightarrow> bool" where
  "digit_name_pair a b =
     (cset_mem (Pos [Dec]) a \<and> cset_mem (Pos [Rg 97 122, Rg 65 90, Ch 40]) b)"

definition paren_name_pair :: "uchar \<Rightarrow> uchar \<Rightarrow> bool" where
  "paren_name_pair a b = (cset_mem (Pos [Ch 41]) a \<and> cset_mem letter b)"


abbreviation nonparen :: "uchar \<Rightarrow> bool" where "nonparen \<equiv> (\<lambda>x. x \<noteq> 40 \<and> x \<noteq> 41)"


text \<open>The \<^verbatim>\<open>parsed\<close> entry of a returned dictionary.\<close>

fun parsed_form :: "'e result \<Rightarrow> ustring option" where
  "parsed_form (Result v p steps) = Some p"
| "parsed_form (Error e p) = p"
| "parsed_form ReturnsNone = None"



section \<open>Character classes\<close>

lemma not_in_ranges:
  "list_all (\<lambda>(lo, hi). hi < a \<or> b < lo) rs \<Longrightarrow> a \<le> c \<Longrightarrow> c \<le> b \<Longrightarrow> \<not> in_ranges c rs"
  by (induction rs) (auto simp: in_ranges_def)

lemma not_in_ranges_below:
  "list_all (\<lambda>(lo, hi). b < lo) rs \<Longrightarrow> c \<le> b \<Longrightarrow> \<not> in_ranges c rs"
  by (induction rs) (auto simp: in_ranges_def)

lemma not_isdecimal_low: "c \<le> 47 \<Longrightarrow> \<not> isdecimal c"
  unfolding isdecimal_def
  by (rule not_in_ranges_below[where b = 47]) (code_simp, simp)

lemma not_isdecimal_mid: "58 \<le> c \<Longrightarrow> c \<le> 1631 \<Longrightarrow> \<not> isdecimal c"
  unfolding isdecimal_def
  by (rule not_in_ranges[where a = 58 and b = 1631]) (code_simp, simp_all)

lemma not_isspace_mid: "33 \<le> c \<Longrightarrow> c \<le> 132 \<Longrightarrow> \<not> isspace c"
  unfolding isspace_def
  by (rule not_in_ranges[where a = 33 and b = 132]) (code_simp, simp_all)

lemma isspace_32: "isspace 32" by code_simp
lemma not_isspace_glyphs: "\<not> isspace INTEGRAL" "\<not> isspace PARTIAL" "\<not> isspace SUP2"
  by code_simp+

section \<open>The matcher\<close>















section \<open>Every rewrite loop ends\<close>























section \<open>The preprocessor inserts stars\<close>

lemma candidates_One:
  "candidates (Atom c One cp) s = (case s of [] \<Rightarrow> [] | a # t \<Rightarrow> if cset_mem c a then [1] else [])"
  by (cases s) (auto simp: candidates_def)

lemma match_One:
  "match_here (Atom c One cp # r) s =
     (case s of [] \<Rightarrow> None
      | a # t \<Rightarrow> if cset_mem c a
                 then (case match_here r t of None \<Rightarrow> None | Some (ps, rest) \<Rightarrow> Some ([a] # ps, rest))
                 else None)"
  by (cases s) (auto simp: candidates_One split: option.splits)

lemma match_two:
  "match_here [Atom c1 One True, Atom c2 One True] s =
     (case s of a # b # t \<Rightarrow> if cset_mem c1 a \<and> cset_mem c2 b then Some ([[a], [b]], t) else None
      | _ \<Rightarrow> None)"
  by (auto simp: match_One simp del: match_here.simps(2) split: list.splits)

lemma sub_go_two:
  "sub_go [G c1 One, G c2 One] star_between 0 s =
     insert_star (\<lambda>a b. cset_mem c1 a \<and> cset_mem c2 b) s"
  unfolding G_def
proof (induction "\<lambda>a b. cset_mem c1 a \<and> cset_mem c2 b" s rule: insert_star.induct)
  case (1 a b s)
  then show ?case
    by (auto simp: match_two groups_def star_between_def asc_def ch_def
        simp del: match_here.simps(2))
qed (simp_all add: match_two del: match_here.simps(2))

lemma replace_one:
  "replace_go [c] new 0 s = concat (map (\<lambda>x. if x = c then new else [x]) s)"
  by (induction s) auto

lemma preprocess_alt:
  "preprocess_expression s =
     insert_star paren_name_pair (insert_star digit_name_pair (concat (map (\<lambda>x. if x = 94 then [42, 42] else [x]) s)))"
proof -
  have 2: "digit_name_pair = (\<lambda>a b. cset_mem (Pos [Dec]) a \<and> cset_mem (Pos [Rg 97 122, Rg 65 90, Ch 40]) b)"
    and 3: "paren_name_pair = (\<lambda>a b. cset_mem (Pos [Ch 41]) a \<and> cset_mem letter b)"
    by (simp_all add: fun_eq_iff digit_name_pair_def paren_name_pair_def)
  show ?thesis
    unfolding preprocess_expression_def re_sub_def digit_then_name_def paren_then_name_def
      sub_go_two Let_def 2 3
    by (simp add: replace_def replace_one asc_def ch_def)
qed

lemma insert_star_id: "\<not> has_pair P s \<Longrightarrow> insert_star P s = s"
  by (induction P s rule: insert_star.induct) auto

lemma insert_star_hd: "\<exists>t. insert_star P (a # s) = a # t"
  by (cases s) auto

lemma has_pair_Cons2:
  "has_pair P (a # b # t) = (P a b \<or> has_pair P (b # t))"
  by simp

lemma has_pair_insert_star:
  assumes "\<And>a. \<not> Q a 42" "\<And>b. \<not> Q 42 b"
  shows "has_pair Q (insert_star P s) \<Longrightarrow> has_pair Q s"
proof (induction P s rule: insert_star.induct)
  case (1 P a b s)
  show ?case
  proof (cases "P a b")
    case True
    with "1.prems" assms have hp: "has_pair Q (b # insert_star P s)" by simp
    show ?thesis
    proof (cases s)
      case Nil
      with hp show ?thesis by simp
    next
      case (Cons c t)
      then obtain u where u: "insert_star P s = c # u" using insert_star_hd[of P c t] by auto
      with hp have "Q b c \<or> has_pair Q (insert_star P s)" by simp
      with "1.IH"(1)[OF True] Cons show ?thesis by auto
    qed
  next
    case False
    obtain u where u: "insert_star P (b # s) = b # u" using insert_star_hd[of P b s] by auto
    with False "1.prems" have "Q a b \<or> has_pair Q (insert_star P (b # s))" by simp
    with "1.IH"(2)[OF False] show ?thesis by auto
  qed
qed auto

lemma insert_star_no_pair:
  assumes "\<And>a b c. P a b \<Longrightarrow> \<not> P b c" "\<And>a. \<not> P a 42" "\<And>b. \<not> P 42 b"
  shows "\<not> has_pair P (insert_star P s)"
  using assms
proof (induction P s rule: insert_star.induct)
  case (1 P a b s)
  show ?case
  proof (cases "P a b")
    case True
    have ih: "\<not> has_pair P (insert_star P s)" using "1.IH"(1)[OF True] "1.prems" by blast
    have "\<not> has_pair P (b # insert_star P s)"
    proof (cases s)
      case Nil
      then show ?thesis by simp
    next
      case (Cons c t)
      then obtain u where u: "insert_star P s = c # u" using insert_star_hd[of P c t] by auto
      from "1.prems"(1)[OF True] have "\<not> P b c" .
      with ih u show ?thesis by simp
    qed
    with True "1.prems" show ?thesis by simp
  next
    case False
    have ih: "\<not> has_pair P (insert_star P (b # s))" using "1.IH"(2)[OF False] "1.prems" by blast
    obtain u where u: "insert_star P (b # s) = b # u" using insert_star_hd[of P b s] by auto
    with ih False show ?thesis by simp
  qed
qed auto

lemma notin_insert_star: "c \<noteq> 42 \<Longrightarrow> c \<notin> set s \<Longrightarrow> c \<notin> set (insert_star P s)"
  by (induction P s rule: insert_star.induct) auto

lemma digit_name_pair_facts: "digit_name_pair a b \<Longrightarrow> \<not> digit_name_pair b c" "\<not> digit_name_pair a 42" "\<not> digit_name_pair 42 b"
  using not_isdecimal_low[of b] not_isdecimal_mid[of b] not_isdecimal_low[of 42]
  by (auto simp: digit_name_pair_def)

lemma paren_name_pair_facts: "paren_name_pair a b \<Longrightarrow> \<not> paren_name_pair b c" "\<not> paren_name_pair a 42" "\<not> paren_name_pair 42 b"
  by (auto simp: paren_name_pair_def)


section \<open>Matching symbolic texts\<close>

lemma takeWhile_run:
  "\<forall>x\<in>set E. P x \<Longrightarrow> s = [] \<or> \<not> P (hd s) \<Longrightarrow> takeWhile P (E @ s) = E"
  by (cases s) (auto simp: takeWhile_append2 takeWhile_eq_all_conv[THEN iffD2])

lemma rev_upt_Suc: "rev [m..<Suc n] = (if m \<le> n then n # rev [m..<n] else [])"
  by simp

lemma match_Star_greedy:
  assumes "\<forall>x\<in>set E. cset_mem c x" "s = [] \<or> \<not> cset_mem c (hd s)"
    and "match_here r s = Some (ps, rest)"
  shows "match_here (Atom c Star cp # r) (E @ s) = Some (E # ps, rest)"
proof -
  have "candidates (Atom c Star cp) (E @ s) = length E # rev [0..<length E]"
    by (simp add: candidates_def Let_def takeWhile_run[OF assms(1,2)])
  then show ?thesis using assms(3) by simp
qed

lemma match_Plus_greedy:
  assumes "E \<noteq> []" "\<forall>x\<in>set E. cset_mem c x" "s = [] \<or> \<not> cset_mem c (hd s)"
    and "match_here r s = Some (ps, rest)"
  shows "match_here (Atom c Plus cp # r) (E @ s) = Some (E # ps, rest)"
proof -
  have "1 \<le> length E" using assms(1) by (cases E) auto
  then have "candidates (Atom c Plus cp) (E @ s) = length E # rev [1..<length E]"
    by (simp add: candidates_def Let_def takeWhile_run[OF assms(2,3)])
  then show ?thesis using assms(4) by simp
qed


lemma match_Opt_skip:
  assumes "s = [] \<or> \<not> cset_mem c (hd s)"
  shows "match_here (Atom c Opt cp # r) s =
     (case match_here r s of None \<Rightarrow> None | Some (ps, rest) \<Rightarrow> Some ([] # ps, rest))"
  using assms by (cases s) (auto simp: candidates_def split: option.splits)

lemma re_search_hit:
  "match_here r s = Some (ps, rest) \<Longrightarrow> re_search r s = Some ([], ps, rest)"
  by (cases s) auto

lemma re_search_skip:
  assumes "\<forall>x\<in>set P. \<not> cset_mem c x"
  shows "re_search (Atom c One cp # r) (P @ s) =
     (case re_search (Atom c One cp # r) s of None \<Rightarrow> None
      | Some (pre, ps, post) \<Rightarrow> Some (P @ pre, ps, post))"
  using assms
proof (induction P)
  case Nil
  then show ?case by (simp split: option.splits)
next
  case (Cons x P)
  then have "match_here (Atom c One cp # r) (x # P @ s) = None"
    by (simp add: match_One del: match_here.simps(2))
  with Cons show ?case by (simp del: match_here.simps(2) split: option.splits)
qed


lemma re_search_absent:
  assumes "\<forall>x\<in>set s. \<not> cset_mem c x"
  shows "re_search (Atom c One cp # r) s = None"
  using re_search_skip[OF assms, of cp r "[]"] by (simp add: match_One del: match_here.simps(2))


lemma strip_id: "s \<noteq> [] \<Longrightarrow> \<not> isspace (hd s) \<Longrightarrow> \<not> isspace (last s) \<Longrightarrow> strip s = s"
proof -
  assume a: "s \<noteq> []" "\<not> isspace (hd s)" "\<not> isspace (last s)"
  then have 1: "dropWhile isspace s = s" by (cases s) auto
  from a have "dropWhile isspace (rev s) = rev s" by (cases "rev s") (auto simp: hd_rev)
  with 1 show ?thesis by (simp add: strip_def)
qed

lemma prefix_to_paren:
  assumes "40 \<notin> set E" "41 \<notin> set E" "40 \<notin> set u" "41 \<notin> set u"
    and "p = 40 \<or> p = 41" "q = 40 \<or> q = 41"
  shows "prefix (u @ p # w) (E @ q # B) \<longleftrightarrow> u = E \<and> p = q \<and> prefix w B"
  using assms
proof (induction u arbitrary: E)
  case Nil
  then show ?case by (cases E) auto
next
  case (Cons x u)
  then show ?case by (cases E) auto
qed

lemma prefix_paren_free:
  assumes "40 \<notin> set E" "41 \<notin> set E" "q = 40 \<or> q = 41" "40 \<in> set cs \<or> 41 \<in> set cs"
  shows "prefix cs (E @ q # B) \<longleftrightarrow>
           takeWhile nonparen cs = E \<and> prefix (dropWhile nonparen cs) (q # B)"
proof -
  let ?u = "takeWhile nonparen cs" and ?d = "dropWhile nonparen cs"
  from assms(4) have "?d \<noteq> []" by (auto simp: dropWhile_eq_Nil_conv)
  then obtain p w where d: "?d = p # w" by (cases ?d) auto
  have p: "p = 40 \<or> p = 41" using hd_dropWhile[of nonparen cs] \<open>?d \<noteq> []\<close> d by auto
  have u: "40 \<notin> set ?u" "41 \<notin> set ?u" by (auto dest: set_takeWhileD)
  have "cs = ?u @ p # w" using takeWhile_dropWhile_id[of nonparen cs] d by simp
  then have "prefix cs (E @ q # B) \<longleftrightarrow> prefix (?u @ p # w) (E @ q # B)" by simp
  also have "\<dots> \<longleftrightarrow> ?u = E \<and> p = q \<and> prefix w B"
    by (rule prefix_to_paren[OF assms(1,2) u p assms(3)])
  finally show ?thesis by (simp add: d)
qed

lemma sublist_no_open_paren:
  "40 \<in> set cat \<Longrightarrow> 40 \<notin> set E \<Longrightarrow> 40 \<notin> set B \<Longrightarrow> sublist cat (E @ B) = False"
  using set_mono_sublist[of cat "E @ B"] by auto

lemma c3_example2:
  assumes "97 \<le> v1" "v1 \<le> 122" "97 \<le> v2" "v2 \<le> 122" "40 \<notin> set E" "41 \<notin> set E"
  shows "sublist example2 ([INTEGRAL] @ asc ''(d/d'' @ [v1] @ asc ''('' @ E @ asc ''))'' @ asc '' d'' @ [v2])
         \<longleftrightarrow> v1 = 120 \<and> E = asc ''x^2'' \<and> v2 = 120"
  using assms
  by (auto simp: example2_def asc_def ch_def sublist_Cons_right sublist_no_open_paren prefix_paren_free)


lemma c3_example2':
  assumes "97 \<le> v1" "v1 \<le> 122" "97 \<le> v2" "v2 \<le> 122" "40 \<notin> set E" "41 \<notin> set E"
  shows "sublist example2' ([INTEGRAL] @ asc ''(d/d'' @ [v1] @ asc ''('' @ E @ asc ''))'' @ asc '' d'' @ [v2])
         \<longleftrightarrow> v1 = 120 \<and> E = asc ''x**2'' \<and> v2 = 120"
  using assms
  by (auto simp: example2'_def asc_def ch_def sublist_Cons_right sublist_no_open_paren prefix_paren_free)

lemma c3_other_examples:
  assumes "97 \<le> v1" "v1 \<le> 122" "97 \<le> v2" "v2 \<le> 122" "40 \<notin> set E" "41 \<notin> set E"
  shows "\<not> sublist example3 ([INTEGRAL] @ asc ''(d/d'' @ [v1] @ asc ''('' @ E @ asc ''))'' @ asc '' d'' @ [v2])"
    and "\<not> sublist example3' ([INTEGRAL] @ asc ''(d/d'' @ [v1] @ asc ''('' @ E @ asc ''))'' @ asc '' d'' @ [v2])"
    and "\<not> sublist example4 ([INTEGRAL] @ asc ''(d/d'' @ [v1] @ asc ''('' @ E @ asc ''))'' @ asc '' d'' @ [v2])"
    and "\<not> sublist example5 ([INTEGRAL] @ asc ''(d/d'' @ [v1] @ asc ''('' @ E @ asc ''))'' @ asc '' d'' @ [v2])"
  using assms
  by (auto simp: example3_def example3'_def example4_def example5_def asc_def ch_def
      sublist_Cons_right sublist_no_open_paren prefix_paren_free)


lemma match_ws_none:
  "\<not> isspace a \<Longrightarrow> match_here (ws # r) (a # t) =
     (case match_here r (a # t) of None \<Rightarrow> None | Some (ps, rest) \<Rightarrow> Some ([] # ps, rest))"
  by (auto simp: candidates_def split: option.splits)

lemma c3_match:
  assumes v1: "97 \<le> v1" "v1 \<le> 122" and v2: "97 \<le> v2" "v2 \<le> 122"
    and E: "E \<noteq> []" "40 \<notin> set E" "41 \<notin> set E"
  shows "search_groups derivative_in_integral
           ([INTEGRAL] @ asc ''(d/d'' @ [v1] @ asc ''('' @ E @ asc ''))'' @ asc '' d'' @ [v2]) =
         Some [[v1], E, [v2]]"
proof -
  let ?r5 = "[L 100, Atom lower One True]"
  let ?r3 = "L 41 # ws # L 41 # ws # ?r5"
  have 5: "match_here ?r5 [100, v2] = Some ([[100], [v2]], [])"
    using v2 by (simp add: match_One L_def del: match_here.simps(2))
  have 4: "match_here (ws # ?r5) ([32] @ [100, v2]) = Some ([[32], [100], [v2]], [])"
    by (rule match_Star_greedy[OF _ _ 5]) (use isspace_32 not_isspace_mid[of 100] in simp_all)
  have 3: "match_here ?r3 (41 # 41 # 32 # [100, v2]) =
             Some ([[41], [], [41], [32], [100], [v2]], [])"
    using 4 not_isspace_mid[of 41]
    by (simp add: match_One match_ws_none L_def del: match_here.simps(2))
  have 2: "match_here (Atom noparen Plus True # ?r3) (E @ 41 # 41 # 32 # [100, v2]) =
             Some ([E, [41], [], [41], [32], [100], [v2]], [])"
    by (rule match_Plus_greedy[OF E(1) _ _ 3]) (use E in auto)
  have 1: "match_here derivative_in_integral
             (INTEGRAL # 40 # 100 # 47 # 100 # v1 # 40 # E @ 41 # 41 # 32 # [100, v2]) =
           Some ([[INTEGRAL], [], [40], [], [100], [47], [100], [v1], [], [40],
                  E, [41], [], [41], [32], [100], [v2]], [])"
    using 2 v1 not_isspace_mid[of 40] not_isspace_mid[of 100]
    by (simp add: derivative_in_integral_def lit_def L_def G_def ch_def match_One match_ws_none
        del: match_here.simps(2))
  have g: "groups derivative_in_integral
             [[INTEGRAL], [], [40], [], [100], [47], [100], [v1], [], [40],
              E, [41], [], [41], [32], [100], [v2]] = [[v1], E, [v2]]"
    by (simp add: groups_def derivative_in_integral_def lit_def L_def G_def)
  have t: "[INTEGRAL] @ asc ''(d/d'' @ [v1] @ asc ''('' @ E @ asc ''))'' @ asc '' d'' @ [v2] =
           INTEGRAL # 40 # 100 # 47 # 100 # v1 # 40 # E @ 41 # 41 # 32 # [100, v2]"
    by (simp add: asc_def ch_def)
  show ?thesis
    unfolding t search_groups_def re_search_hit[OF 1] by (simp add: g)
qed

















section \<open>The fallbacks of the evaluator\<close>

lemma simple_integral_fails:
  assumes c: "prefix [INTEGRAL] (strip t) \<and> ch CHR ''d'' \<in> set t \<and> \<not> prefix (asc ''d/d'') t"
   and l: "2 \<le> length (split_on (ch CHR ''d'') (strip t))"
   and i: "strip (tl (hd (split_on (ch CHR ''d'') (strip t)))) = a"
   and syn: "sympify eng a = Inl m1"
  shows "\<exists>msgs. simple_integral eng t p = (None, msgs)"
  unfolding simple_integral_def
  by (simp only: c l i Let_def and_then_def syn if_True simp_thms split: sum.splits) simp

lemma evaluate_parsed_falls_through:
  assumes n: "p \<notin> set [asc ''x^2'', asc ''1'', asc ''0'', asc ''x^3/3'']"
    and b: "p \<noteq> asc ''sin(x)''"
    and c: "prefix (asc ''integrate('') p"
    and g: "search_groups integrate_call p = Some [a, v]"
    and r: "explicit_products a v = a"
    and syn: "sympify eng a = Inl m1" "sympify eng p = Inl m2"
  shows "fst (evaluate_parsed eng t p) = ReturnsNone"
proof -
  have 1: "evaluation_attempt eng t p = Inl m2"
    unfolding evaluation_attempt_def by (simp only: n if_False and_then_def syn sum.case)
  have 2: "fst (direct_integration eng t p) = ReturnsNone"
    unfolding direct_integration_def
    by (simp only: g r Let_def and_then_def syn nth_Cons_0 nth_Cons_Suc One_nat_def sum.case
        option.case split: sum.splits) simp
  show ?thesis
    unfolding evaluate_parsed_def by (simp only: 1 2 b c sum.case if_False if_True)
qed

lemma evaluate_falls_through:
  assumes lit: "literal_examples eng t = None"
    and parse: "parse_combined_expression t = Some p"
    and s: "strip t \<noteq> asc ''d/dx('' @ [INTEGRAL] @ asc ''sin(t) dt)''"
    and si: "simple_integral eng t p = (None, msgs)"
    and ep: "fst (evaluate_parsed eng t p) = ReturnsNone"
  shows "map_option fst (evaluate_combined_expression eng t) = Some ReturnsNone"
  unfolding evaluate_combined_expression_def
  using ep by (simp only: lit parse s si Let_def option.case if_False prod.case split: prod.splits) auto


section \<open>The text after the loops\<close>






section \<open>The literal examples and the page\<close>

lemma dropWhile_keeps_sublist:
  assumes "sublist cat s" "cat \<noteq> []" "\<not> P (hd cat)"
  shows "\<exists>p q. dropWhile P s = p @ cat @ q \<and> s = takeWhile P s @ p @ cat @ q"
proof -
  from assms(1) obtain p q where s: "s = p @ cat @ q" by (auto simp: sublist_def)
  obtain c cs where c: "cat = c # cs" using assms(2) by (cases cat) auto
  with assms(3) have nc: "\<not> P c" by simp
  have "dropWhile P s = dropWhile P p @ cat @ q"
  proof (cases "\<forall>x\<in>set p. P x")
    case True
    then show ?thesis using nc by (simp add: s c)
  next
    case False
    then show ?thesis by (auto simp: s dropWhile_append1)
  qed
  moreover have "s = takeWhile P s @ dropWhile P s" by simp
  ultimately show ?thesis by metis
qed

lemma sublist_dropWhile:
  "sublist cat s \<Longrightarrow> cat \<noteq> [] \<Longrightarrow> \<not> P (hd cat) \<Longrightarrow> sublist cat (dropWhile P s)"
  using dropWhile_keeps_sublist[of cat s P] by (auto simp: sublist_def)

lemma sublist_strip:
  assumes "sublist cat s" "cat \<noteq> []" "\<not> isspace (hd cat)" "\<not> isspace (last cat)"
  shows "sublist cat (strip s)"
proof -
  have 1: "sublist cat (dropWhile isspace s)" by (rule sublist_dropWhile[where P = isspace, OF assms(1,2,3)])
  then have "sublist (rev cat) (rev (dropWhile isspace s))" by (simp add: sublist_rev)
  then have "sublist (rev cat) (dropWhile isspace (rev (dropWhile isspace s)))"
    by (rule sublist_dropWhile) (use assms in \<open>simp_all add: hd_rev\<close>)
  then have "sublist (rev (rev cat)) (rev (dropWhile isspace (rev (dropWhile isspace s))))"
    by (subst sublist_rev)
  then show ?thesis by (simp add: strip_def)
qed

lemma example3_not_in_forms:
  "list_all (\<lambda>f. \<not> sublist example3 f \<and> \<not> sublist example3' f)
     (d_dx_sin_forms @ d2_dx2_sin_forms @ partial_x_sin_forms)"
  by code_simp

lemma example3_ends:
  "example3 \<noteq> []" "\<not> isspace (hd example3)" "\<not> isspace (last example3)"
  "example3' \<noteq> []" "\<not> isspace (hd example3')" "\<not> isspace (last example3')"
  by code_simp+

lemma limit_text_not_a_sin_form:
  assumes "sublist example3 expr_text \<or> sublist example3' expr_text"
  shows "strip expr_text \<notin> set d_dx_sin_forms" "strip expr_text \<notin> set d2_dx2_sin_forms"
    "strip expr_text \<notin> set partial_x_sin_forms"
proof -
  from assms have "sublist example3 (strip expr_text) \<or> sublist example3' (strip expr_text)"
    using sublist_strip[OF _ example3_ends(1,2,3)] sublist_strip[OF _ example3_ends(4,5,6)]
    by blast
  then have "strip expr_text \<notin> set (d_dx_sin_forms @ d2_dx2_sin_forms @ partial_x_sin_forms)"
    using example3_not_in_forms unfolding list_all_iff by blast
  then show "strip expr_text \<notin> set d_dx_sin_forms" "strip expr_text \<notin> set d2_dx2_sin_forms"
    "strip expr_text \<notin> set partial_x_sin_forms" by simp_all
qed






section \<open>The claims\<close>

text \<open>
  C7. The preprocessor is idempotent: for every string \<open>s\<close>, preprocessing the preprocessed
  text gives the preprocessed text again.
\<close>

theorem preprocess_idempotent:
  "preprocess_expression (preprocess_expression s) = preprocess_expression s"
proof -
  define r1 where "r1 = concat (map (\<lambda>x. if x = 94 then [42, 42] else [x]) s)"
  define r2 where "r2 = insert_star digit_name_pair r1"
  define r3 where "r3 = insert_star paren_name_pair r2"
  have r3: "preprocess_expression s = r3"
    by (simp add: preprocess_alt r1_def r2_def r3_def)
  have "94 \<notin> set r1" by (auto simp: r1_def)
  then have "94 \<notin> set r3"
    unfolding r2_def r3_def by (intro notin_insert_star) simp_all
  then have a: "concat (map (\<lambda>x. if x = 94 then [42, 42] else [x]) r3) = r3"
    by (induction r3) auto
  have "\<not> has_pair digit_name_pair r2" unfolding r2_def using digit_name_pair_facts by (intro insert_star_no_pair) blast+
  then have "\<not> has_pair digit_name_pair r3"
    unfolding r3_def using has_pair_insert_star[of digit_name_pair paren_name_pair r2] digit_name_pair_facts by blast
  then have b: "insert_star digit_name_pair r3 = r3" by (rule insert_star_id)
  have "\<not> has_pair paren_name_pair r3" unfolding r3_def using paren_name_pair_facts by (intro insert_star_no_pair) blast+
  then have c: "insert_star paren_name_pair r3 = r3" by (rule insert_star_id)
  show ?thesis unfolding r3 by (subst preprocess_alt) (simp add: a b c)
qed




text \<open>
  C1 (the code differs). The claim: every call returns the success record or the error
  record. On \<^verbatim>\<open>\<integral>(x+1 dx\<close> (an unmatched parenthesis) the function returns \<^verbatim>\<open>None\<close>: the text is
  parsed to \<^verbatim>\<open>integrate((x+1, x)\<close>, the engine rejects both the integrand and the parsed
  string, the direct integration of lines 483 to 511 fails too, and after \<^verbatim>\<open>st.error\<close> on line
  513 the function body ends without a \<^verbatim>\<open>return\<close>. This holds for every engine that rejects
  the two strings.
\<close>

theorem unbalanced_integral_returns_none:
  assumes "sympify eng (asc ''(x+1'') = Inl m1"
      and "sympify eng (asc ''integrate((x+1, x)'') = Inl m2"
  shows "map_option fst (evaluate_combined_expression eng ([INTEGRAL] @ asc ''(x+1 dx'')) =
           Some ReturnsNone"
proof -
  define t where "t = [INTEGRAL] @ asc ''(x+1 dx''"
  define p where "p = asc ''integrate((x+1, x)''"
  define a where "a = asc ''(x+1''"
  note syn = assms[folded a_def p_def]
  have lit: "literal_examples eng t = None" unfolding t_def by code_simp
  have parse: "parse_combined_expression t = Some p" unfolding t_def p_def by code_simp
  have s: "strip t \<noteq> asc ''d/dx('' @ [INTEGRAL] @ asc ''sin(t) dt)''" unfolding t_def by code_simp
  have c: "prefix [INTEGRAL] (strip t) \<and> ch CHR ''d'' \<in> set t \<and> \<not> prefix (asc ''d/d'') t"
    unfolding t_def by code_simp
  have l: "2 \<le> length (split_on (ch CHR ''d'') (strip t))" unfolding t_def by code_simp
  have i: "strip (tl (hd (split_on (ch CHR ''d'') (strip t)))) = a" unfolding t_def a_def by code_simp
  obtain msgs where si: "simple_integral eng t p = (None, msgs)"
    using simple_integral_fails[OF c l i syn(1)] by blast
  have n: "p \<notin> set [asc ''x^2'', asc ''1'', asc ''0'', asc ''x^3/3'']" unfolding p_def by code_simp
  have b: "p \<noteq> asc ''sin(x)''" unfolding p_def by code_simp
  have pr: "prefix (asc ''integrate('') p" unfolding p_def by code_simp
  have g: "search_groups integrate_call p = Some [a, asc ''x'']" unfolding p_def a_def by code_simp
  have r: "explicit_products a (asc ''x'') = a" unfolding a_def by code_simp
  have ep: "fst (evaluate_parsed eng t p) = ReturnsNone"
    by (rule evaluate_parsed_falls_through[OF n b pr g r syn])
  show ?thesis
    using evaluate_falls_through[OF lit parse s si ep] unfolding t_def .
qed

theorem unbalanced_integral_returns_none_witness:
  "map_option fst (evaluate_combined_expression rejecting_engine ([INTEGRAL] @ asc ''(x+1 dx'')) =
     Some ReturnsNone"
  by (rule unbalanced_integral_returns_none[of rejecting_engine "asc ''SympifyError''" "asc ''SympifyError''"])
     (simp_all add: rejecting_engine_def text_engine_def)

text \<open>
  C5 (the code differs). The claim: for \<^verbatim>\<open>d/dx(lim_{t->a}(E))\<close> with \<open>t\<close> different from \<open>x\<close> and
  \<open>x\<close> not in \<open>E\<close> the result is \<^verbatim>\<open>0\<close>. The class \<^verbatim>\<open>[_{]?\<close> of the pattern takes at most one of the
  two characters \<^verbatim>\<open>_{\<close>, so the pattern of line 112 does not match this notation: on
  \<^verbatim>\<open>d/dx(lim_{t->1}(t^2))\<close> the nested form is not recognised and the first-derivative loop
  rewrites the text to \<^verbatim>\<open>diff(lim_{t->1}, x)(t**2))\<close>.
\<close>

theorem derivative_of_limit_not_recognised:
  "search_groups limit_derivative (preprocess_expression (asc ''d/dx(lim_{t->1}(t^2))'')) = None \<and>
   parse_combined_expression (asc ''d/dx(lim_{t->1}(t^2))'') =
     Some (asc ''diff(lim_{t->1}, x)(t**2))'')"
  by code_simp



text \<open>
  C3 (as stated it fails). The claim: \<^verbatim>\<open>\<integral>(d/dv(E)) dv\<close> is resolved to \<open>E\<close> for every \<open>E\<close>. The
  pattern of line 72 takes an integrand without parentheses only: for \<open>E\<close> the text \<^verbatim>\<open>sin(x)\<close>
  the nested form is not recognised and the text is split at its first and last letter d.
\<close>

theorem integral_of_derivative_counterexample:
  "parse_combined_expression ([INTEGRAL] @ asc ''(d/dx(sin(x))) dx'') =
     Some (asc ''integrate((, x)'') \<and>
   asc ''integrate((, x)'' \<noteq> asc ''sin(x)''"
  by code_simp

text \<open>
  C3 (amended). For lower-case letters \<open>v1\<close>, \<open>v2\<close> and a non-empty \<open>E\<close> free of parentheses,
  \<^verbatim>\<open>\<integral>(d/dv1(E)) dv2\<close> is resolved to \<open>E\<close> when \<open>v1 = v2\<close>, and to
  \<^verbatim>\<open>integrate(diff(E, v1), v2)\<close> otherwise; the one exception is the literal example
  \<^verbatim>\<open>\<integral>(d/dx(x**2)) dx\<close> of line 52, whose result is \<^verbatim>\<open>x^2\<close>. In particular \<^verbatim>\<open>\<integral>(d/dx(x^2)) dx\<close> gives
  \<^verbatim>\<open>x^2\<close>.
\<close>

theorem integral_of_derivative:
  assumes v1: "97 \<le> v1" "v1 \<le> 122" and v2: "97 \<le> v2" "v2 \<le> 122"
    and E: "E \<noteq> []" "40 \<notin> set E" "41 \<notin> set E"
  shows "parse_combined_expression
           ([INTEGRAL] @ asc ''(d/d'' @ [v1] @ asc ''('' @ E @ asc ''))'' @ asc '' d'' @ [v2]) =
         Some (if v1 = v2
               then (if v1 = 120 \<and> E = asc ''x**2'' then asc ''x^2'' else E)
               else asc ''integrate(diff('' @ E @ asc '', '' @ [v1] @ asc ''), '' @ [v2] @ asc '')'')"
proof -
  define T where "T = [INTEGRAL] @ asc ''(d/d'' @ [v1] @ asc ''('' @ E @ asc ''))'' @ asc '' d'' @ [v2]"
  have st: "strip T = T"
    by (rule strip_id) (use v2 not_isspace_mid[of v2] not_isspace_glyphs in \<open>simp_all add: T_def asc_def ch_def\<close>)
  have n: "T \<notin> set d_dx_sin_forms" "T \<notin> set d2_dx2_sin_forms" "T \<notin> set partial_x_sin_forms"
    by (simp_all add: T_def d_dx_sin_forms_def d2_dx2_sin_forms_def partial_x_sin_forms_def
        asc_def ch_def)
  note ex2 = c3_example2[OF v1 v2 E(2,3), folded T_def]
    and ex2' = c3_example2'[OF v1 v2 E(2,3), folded T_def]
    and other = c3_other_examples[OF v1 v2 E(2,3), folded T_def]
  have c: "prefix [INTEGRAL] T" "ch CHR ''d'' \<in> set T" "\<not> prefix (asc ''d/d'') T"
    by (simp_all add: T_def asc_def ch_def)
  note g = c3_match[OF assms, folded T_def]
  have "parse_combined_expression T =
         Some (if v1 = v2
               then (if v1 = 120 \<and> E = asc ''x**2'' then asc ''x^2'' else E)
               else asc ''integrate(diff('' @ E @ asc '', '' @ [v1] @ asc ''), '' @ [v2] @ asc '')'')"
    unfolding parse_combined_expression_def st
    by (simp add: n ex2 ex2' other c g Let_def)
  then show ?thesis unfolding T_def .
qed

theorem integral_of_derivative_witness:
  "parse_combined_expression ([INTEGRAL] @ asc ''(d/dy(y^3)) dy'') = Some (asc ''y^3'') \<and>
   parse_combined_expression ([INTEGRAL] @ asc ''(d/dx(x^2)) dx'') = Some (asc ''x^2'') \<and>
   parse_combined_expression ([INTEGRAL] @ asc ''(d/dx(x*y)) dy'') =
     Some (asc ''integrate(diff(x*y, x), y)'')"
  using integral_of_derivative[of 121 121 "asc ''y^3''"]
    integral_of_derivative[of 120 120 "asc ''x^2''"]
    integral_of_derivative[of 120 121 "asc ''x*y''"]
  by (simp add: asc_def ch_def)










text \<open>
  C8 (as stated it fails). The claim: every text that contains \<^verbatim>\<open>lim_{x->0}(sin(x)/x)\<close> is
  answered by the literal example with result 1. The examples are tested in order, and the
  test of line 321 comes first: a text that also contains \<^verbatim>\<open>\<integral>(d/dx(x^2)) dx\<close> is answered with
  the parsed form \<^verbatim>\<open>x^2\<close>.
\<close>

theorem earlier_example_wins:
  "sublist example3 ([INTEGRAL] @ asc ''(d/dx(x^2)) dx + lim_{x->0}(sin(x)/x)'') \<and>
   map_option (parsed_form \<circ> fst)
     (evaluate_combined_expression text_engine
        ([INTEGRAL] @ asc ''(d/dx(x^2)) dx + lim_{x->0}(sin(x)/x)'')) = Some (Some (asc ''x^2''))"
  by code_simp

text \<open>
  C8 (amended). For every text that contains \<^verbatim>\<open>lim_{x->0}(sin(x)/x)\<close> or \<^verbatim>\<open>lim x->0 sin(x)/x\<close> and
  contains neither \<^verbatim>\<open>\<integral>(d/dx(x^2)) dx\<close> nor \<^verbatim>\<open>\<integral>(d/dx(x**2)) dx\<close>, and an engine that parses \<^verbatim>\<open>1\<close>,
  the evaluator returns the engine's value of \<^verbatim>\<open>1\<close>, the parsed form \<^verbatim>\<open>1\<close> and the four fixed
  steps; it writes nothing to the page, so the parsing pipeline (whose first act is the
  \<^verbatim>\<open>Parsed expression\<close> message) has not run.
\<close>

theorem limit_fast_path:
  assumes "sublist example3 expr_text \<or> sublist example3' expr_text"
    and "\<not> sublist example2 expr_text" "\<not> sublist example2' expr_text"
    and "sympify eng (asc ''1'') = Inr one"
  shows "evaluate_combined_expression eng expr_text =
           Some (Result one (asc ''1'')
                   [asc ''Original expression: '' @ expr_text,
                    asc ''This is a well-known limit in calculus'',
                    asc ''Using L'' @ [39] @ asc ''H'' @ [244] @ asc ''pital'' @ [39] @
                      asc ''s rule or Taylor series expansion'',
                    asc ''The limit of sin(x)/x as x approaches 0 is 1''],
                 [])"
proof -
  note n = limit_text_not_a_sin_form[OF assms(1)]
  have "literal_examples eng expr_text =
           Some (Result one (asc ''1'')
                   [asc ''Original expression: '' @ expr_text,
                    asc ''This is a well-known limit in calculus'',
                    asc ''Using L'' @ [39] @ asc ''H'' @ [244] @ asc ''pital'' @ [39] @
                      asc ''s rule or Taylor series expansion'',
                    asc ''The limit of sin(x)/x as x approaches 0 is 1''])"
    unfolding literal_examples_def original_def
    by (simp only: n assms if_False if_True simp_thms sum.case)
  then show ?thesis by (simp add: evaluate_combined_expression_def)
qed


theorem limit_fast_path_witness:
  "evaluate_combined_expression text_engine (asc ''2 * lim_{x->0}(sin(x)/x)'') =
           Some (Result (asc ''1'') (asc ''1'')
                   [asc ''Original expression: '' @ asc ''2 * lim_{x->0}(sin(x)/x)'',
                    asc ''This is a well-known limit in calculus'',
                    asc ''Using L'' @ [39] @ asc ''H'' @ [244] @ asc ''pital'' @ [39] @
                      asc ''s rule or Taylor series expansion'',
                    asc ''The limit of sin(x)/x as x approaches 0 is 1''],
                 [])"
proof (rule limit_fast_path)
  show "sublist example3 (asc ''2 * lim_{x->0}(sin(x)/x)'') \<or>
        sublist example3' (asc ''2 * lim_{x->0}(sin(x)/x)'')" by code_simp
  show "\<not> sublist example2 (asc ''2 * lim_{x->0}(sin(x)/x)'')" by code_simp
  show "\<not> sublist example2' (asc ''2 * lim_{x->0}(sin(x)/x)'')" by code_simp
  show "sympify text_engine (asc ''1'') = Inr (asc ''1'')" by (simp add: text_engine_def)
qed







end
